theory Spec2Isabelle
  imports Main "HOL-Library.Word" "HOL-Library.AList"
begin

section \<open>The power assertion client of libimobiledevice (power.c) and its driver (idevicepower.c)\<close>

text \<open>
  The development embeds \<^verbatim>\<open>src/power.c\<close> and the \<^verbatim>\<open>main\<close> function of
  \<^verbatim>\<open>tools/idevicepower.c\<close>.

  \<^item> Nullable C pointers are \<open>option\<close> values, \<open>None\<close> being \<^verbatim>\<open>NULL\<close>.  An output parameter
    such as \<^verbatim>\<open>power_client_t *client\<close> is a pointer to a slot that itself holds a nullable
    handle: \<open>None\<close> is the null pointer, \<open>Some v\<close> a pointer to a slot holding \<open>v\<close>.
    A function that writes through it returns the pointer with the slot's new content.
  \<^item> Dereferencing a null pointer is the fault \<open>NULL_DEREFERENCE\<close>: such a call does not return.
  \<^item> The functions of the property list service, of lockdownd, of libimobiledevice's device
    layer and of libc are not part of these sources.  What they answer is given by a record
    \<open>world\<close>; a theorem with a variable for the world holds for every world.  Each of
    them is called at most once in a call of a function of power.c and in a run of the
    driver, so a fixed answer per argument covers every behaviour of the far end.
  \<^item> Every call of such a function is recorded, with its arguments and its answer, in a trace
    (a list of events in the order of the calls).  Every function returns its trace together
    with its result.  Diagnostic output (\<^verbatim>\<open>debug_info\<close>, \<^verbatim>\<open>printf\<close>, \<^verbatim>\<open>fprintf\<close>) is not
    recorded, except the calls of \<^verbatim>\<open>print_usage\<close> and the version line.
\<close>

subsection \<open>Error codes\<close>

text \<open>The enumeration \<^verbatim>\<open>power_error_t\<close> of \<^verbatim>\<open>include/libimobiledevice/power.h\<close>.\<close>

datatype power_error_t =
    POWER_E_SUCCESS
  | POWER_E_INVALID_ARG
  | POWER_E_PLIST_ERROR
  | POWER_E_MUX_ERROR
  | POWER_E_SSL_ERROR
  | POWER_E_NOT_ENOUGH_DATA
  | POWER_E_TIMEOUT
  | POWER_E_UNKNOWN_ERROR

text \<open>The integer each enumerator stands for, as the header gives it.\<close>

fun power_error_value :: "power_error_t \<Rightarrow> int" where
  "power_error_value POWER_E_SUCCESS = 0"
| "power_error_value POWER_E_INVALID_ARG = - 1"
| "power_error_value POWER_E_PLIST_ERROR = - 2"
| "power_error_value POWER_E_MUX_ERROR = - 3"
| "power_error_value POWER_E_SSL_ERROR = - 4"
| "power_error_value POWER_E_NOT_ENOUGH_DATA = - 5"
| "power_error_value POWER_E_TIMEOUT = - 6"
| "power_error_value POWER_E_UNKNOWN_ERROR = - 256"

text \<open>
  The enumeration \<^verbatim>\<open>property_list_service_error_t\<close> is declared in a header that is not
  part of these sources.  power.c names seven of its enumerators; every other value of the
  type, whatever its number, is \<open>PROPERTY_LIST_SERVICE_E_OTHER\<close> of that number.
\<close>

datatype property_list_service_error_t =
    PROPERTY_LIST_SERVICE_E_SUCCESS
  | PROPERTY_LIST_SERVICE_E_INVALID_ARG
  | PROPERTY_LIST_SERVICE_E_PLIST_ERROR
  | PROPERTY_LIST_SERVICE_E_MUX_ERROR
  | PROPERTY_LIST_SERVICE_E_SSL_ERROR
  | PROPERTY_LIST_SERVICE_E_NOT_ENOUGH_DATA
  | PROPERTY_LIST_SERVICE_E_RECEIVE_TIMEOUT
  | PROPERTY_LIST_SERVICE_E_OTHER int

text \<open>\<^verbatim>\<open>power_error\<close> (power.c, lines 42-63): the switch, the default arm last.\<close>

fun power_error :: "property_list_service_error_t \<Rightarrow> power_error_t" where
  "power_error PROPERTY_LIST_SERVICE_E_SUCCESS = POWER_E_SUCCESS"
| "power_error PROPERTY_LIST_SERVICE_E_INVALID_ARG = POWER_E_INVALID_ARG"
| "power_error PROPERTY_LIST_SERVICE_E_PLIST_ERROR = POWER_E_PLIST_ERROR"
| "power_error PROPERTY_LIST_SERVICE_E_MUX_ERROR = POWER_E_MUX_ERROR"
| "power_error PROPERTY_LIST_SERVICE_E_SSL_ERROR = POWER_E_SSL_ERROR"
| "power_error PROPERTY_LIST_SERVICE_E_NOT_ENOUGH_DATA = POWER_E_NOT_ENOUGH_DATA"
| "power_error PROPERTY_LIST_SERVICE_E_RECEIVE_TIMEOUT = POWER_E_TIMEOUT"
| "power_error _ = POWER_E_UNKNOWN_ERROR"

datatype idevice_error_t = IDEVICE_E_SUCCESS | IDEVICE_E_OTHER int

datatype lockdownd_error_t = LOCKDOWN_E_SUCCESS | LOCKDOWN_E_OTHER int

datatype fault = NULL_DEREFERENCE

subsection \<open>Documents and handles\<close>

text \<open>
  Property lists come from libplist, which is not part of these sources.  The driver builds
  strings, unsigned integers (\<^verbatim>\<open>uint64_t\<close>) and one dictionary; a dictionary keeps its
  entries in the order of insertion.
\<close>

datatype plist_node =
    PLIST_STRING string
  | PLIST_UINT "64 word"
  | PLIST_DICT "(string \<times> plist_node) list"

type_synonym plist_t = "plist_node option"

definition plist_new_dict :: plist_node where
  "plist_new_dict = PLIST_DICT []"

definition plist_new_string :: "string \<Rightarrow> plist_node" where
  "plist_new_string s = PLIST_STRING s"

definition plist_new_uint :: "64 word \<Rightarrow> plist_node" where
  "plist_new_uint n = PLIST_UINT n"

text \<open>
  Modelled from the spec: \<^verbatim>\<open>plist_dict_set_item\<close> of libplist, for the ``ordered mapping of
  named fields to typed values'' of the request document: the item replaces the value of a
  key that is present and is appended otherwise; a node that is no dictionary is left alone.
\<close>

fun plist_dict_set_item :: "plist_node \<Rightarrow> string \<Rightarrow> plist_node \<Rightarrow> plist_node" where
  "plist_dict_set_item (PLIST_DICT kvs) key item = PLIST_DICT (AList.update key item kvs)"
| "plist_dict_set_item node key item = node"

type_synonym idevice_t = "nat option"

type_synonym lockdownd_client_t = "nat option"

type_synonym property_list_service_client_t = "nat option"

text \<open>Of \<^verbatim>\<open>struct lockdownd_service_descriptor\<close> the code reads the field \<^verbatim>\<open>port\<close> only.\<close>

record lockdownd_service_descriptor =
  port :: "16 word"

type_synonym lockdownd_service_descriptor_t = "lockdownd_service_descriptor option"

text \<open>\<^verbatim>\<open>struct power_client_private\<close>: the property list service client it wraps.\<close>

record power_client_private =
  parent :: property_list_service_client_t

type_synonym power_client_t = "power_client_private option"

datatype idevice_options = IDEVICE_LOOKUP_USBMUX | IDEVICE_LOOKUP_NETWORK

subsection \<open>The collaborators and the trace of their calls\<close>

record world =
  property_list_service_client_new ::
    "idevice_t \<Rightarrow> lockdownd_service_descriptor_t \<Rightarrow>
       property_list_service_error_t \<times> property_list_service_client_t"
  property_list_service_client_free ::
    "property_list_service_client_t \<Rightarrow> property_list_service_error_t"
  property_list_service_send_binary_plist ::
    "property_list_service_client_t \<Rightarrow> plist_t \<Rightarrow> property_list_service_error_t"
  property_list_service_receive_plist_with_timeout ::
    "property_list_service_client_t \<Rightarrow> 32 word \<Rightarrow> property_list_service_error_t \<times> plist_t"
  malloc_succeeds :: bool
  idevice_new_with_options ::
    "string option \<Rightarrow> idevice_options list \<Rightarrow> idevice_error_t \<times> idevice_t"
  lockdownd_client_new_with_handshake ::
    "idevice_t \<Rightarrow> string \<Rightarrow> lockdownd_error_t \<times> lockdownd_client_t"
  lockdownd_start_service ::
    "lockdownd_client_t \<Rightarrow> string \<Rightarrow> lockdownd_error_t \<times> lockdownd_service_descriptor_t"

datatype event =
    PROPERTY_LIST_SERVICE_CLIENT_NEW idevice_t lockdownd_service_descriptor_t
      property_list_service_error_t property_list_service_client_t
  | PROPERTY_LIST_SERVICE_CLIENT_FREE property_list_service_client_t
      property_list_service_error_t
  | PROPERTY_LIST_SERVICE_SEND_BINARY_PLIST property_list_service_client_t plist_t
      property_list_service_error_t
  | PROPERTY_LIST_SERVICE_RECEIVE_PLIST_WITH_TIMEOUT property_list_service_client_t "32 word"
      property_list_service_error_t plist_t
  | MALLOC bool
  | FREE
  | PLIST_FREE plist_t
  | IDEVICE_SET_DEBUG_LEVEL
  | PRINT_USAGE bool
  | PRINT_VERSION
  | IDEVICE_NEW_WITH_OPTIONS "string option" "idevice_options list" idevice_error_t idevice_t
  | LOCKDOWND_CLIENT_NEW_WITH_HANDSHAKE idevice_t string lockdownd_error_t lockdownd_client_t
  | LOCKDOWND_START_SERVICE lockdownd_client_t string lockdownd_error_t
      lockdownd_service_descriptor_t
  | LOCKDOWND_CLIENT_FREE lockdownd_client_t
  | LOCKDOWND_SERVICE_DESCRIPTOR_FREE lockdownd_service_descriptor_t
  | IDEVICE_FREE idevice_t
  | SLEEP nat

subsection \<open>power.c\<close>

text \<open>
  \<^verbatim>\<open>power_client_new\<close> (lines 65-90).  Line 67 stores \<^verbatim>\<open>NULL\<close> through \<^verbatim>\<open>client\<close> before
  the check of line 69, which then reads the slot again.  The unchecked \<^verbatim>\<open>malloc\<close> of line 83
  is followed by a store through its result.
\<close>

definition power_client_new ::
  "world \<Rightarrow> idevice_t \<Rightarrow> lockdownd_service_descriptor_t \<Rightarrow> power_client_t option \<Rightarrow>
     event list \<times> (fault + power_error_t \<times> power_client_t option)" where
  "power_client_new w device service client0 =
     (case client0 of
        None \<Rightarrow> ([], Inl NULL_DEREFERENCE)
      | Some _ \<Rightarrow>
          let client = Some (None :: power_client_t) in
          if device = None
             \<or> (case service of None \<Rightarrow> True | Some s \<Rightarrow> port s = 0)
             \<or> (case client of None \<Rightarrow> True | Some slot \<Rightarrow> slot \<noteq> None)
          then ([], Inr (POWER_E_INVALID_ARG, client))
          else
            (case property_list_service_client_new w device service of
               (err, plclient) \<Rightarrow>
                 let ret = power_error err;
                     called = [PROPERTY_LIST_SERVICE_CLIENT_NEW device service err plclient]
                 in
                 if ret \<noteq> POWER_E_SUCCESS then (called, Inr (ret, client))
                 else if \<not> malloc_succeeds w then
                   (called @ [MALLOC False], Inl NULL_DEREFERENCE)
                 else
                   (called @ [MALLOC True],
                    Inr (POWER_E_SUCCESS, Some (Some \<lparr>parent = plclient\<rparr>)))))"

text \<open>\<^verbatim>\<open>power_client_free\<close> (lines 99-108).\<close>

definition power_client_free :: "world \<Rightarrow> power_client_t \<Rightarrow> event list \<times> power_error_t" where
  "power_client_free w client =
     (case client of
        None \<Rightarrow> ([], POWER_E_INVALID_ARG)
      | Some c \<Rightarrow>
          let e = property_list_service_client_free w (parent c);
              err = power_error e
          in ([PROPERTY_LIST_SERVICE_CLIENT_FREE (parent c) e, FREE], err))"

text \<open>
  \<^verbatim>\<open>power_send\<close> (lines 110-123).  The first statement that reads an argument is the call
  of line 114, which dereferences \<^verbatim>\<open>client\<close> and passes \<^verbatim>\<open>plist\<close> on as it is.
\<close>

definition power_send ::
  "world \<Rightarrow> power_client_t \<Rightarrow> plist_t \<Rightarrow> event list \<times> (fault + power_error_t)" where
  "power_send w client plist =
     (case client of
        None \<Rightarrow> ([], Inl NULL_DEREFERENCE)
      | Some c \<Rightarrow>
          let e = property_list_service_send_binary_plist w (parent c) plist;
              res = power_error e;
              called = [PROPERTY_LIST_SERVICE_SEND_BINARY_PLIST (parent c) plist e]
          in if res \<noteq> POWER_E_SUCCESS then (called, Inr res) else (called, Inr res))"

text \<open>
  \<^verbatim>\<open>power_receive_with_timeout\<close> (lines 130-147).  The failure branch of line 136 frees
  what was received and returns the constant of line 139; the slot behind \<^verbatim>\<open>plist\<close> is
  written at line 142 only.
\<close>

definition power_receive_with_timeout ::
  "world \<Rightarrow> power_client_t \<Rightarrow> plist_t option \<Rightarrow> 32 word \<Rightarrow>
     event list \<times> (fault + power_error_t \<times> plist_t option)" where
  "power_receive_with_timeout w client plist timeout_ms =
     (case client of
        None \<Rightarrow> ([], Inl NULL_DEREFERENCE)
      | Some c \<Rightarrow>
          (case property_list_service_receive_plist_with_timeout w (parent c) timeout_ms of
             (e, outplist) \<Rightarrow>
               let res = power_error e;
                   called =
                     [PROPERTY_LIST_SERVICE_RECEIVE_PLIST_WITH_TIMEOUT (parent c) timeout_ms
                        e outplist]
               in
               if res \<noteq> POWER_E_SUCCESS \<or> outplist = None then
                 (called @ [PLIST_FREE outplist], Inr (POWER_E_MUX_ERROR, plist))
               else
                 (case plist of
                    None \<Rightarrow> (called, Inl NULL_DEREFERENCE)
                  | Some _ \<Rightarrow> (called, Inr (res, Some outplist)))))"

text \<open>\<^verbatim>\<open>power_receive\<close> (lines 125-128).\<close>

definition power_receive ::
  "world \<Rightarrow> power_client_t \<Rightarrow> plist_t option \<Rightarrow>
     event list \<times> (fault + power_error_t \<times> plist_t option)" where
  "power_receive w client plist = power_receive_with_timeout w client plist 1000"

subsection \<open>idevicepower.c: the command line\<close>

text \<open>
  \<^verbatim>\<open>atoi\<close> of libc returns an \<^verbatim>\<open>int\<close> for every string.  It is \<^verbatim>\<open>strtol\<close> in base 10
  converted to \<^verbatim>\<open>int\<close>: white space is skipped, then an optional sign and the longest run
  of decimal digits are read, no digits giving 0; \<^verbatim>\<open>strtol\<close> stays within \<^verbatim>\<open>long\<close> (64
  bits) by returning the nearest bound, and the conversion keeps the low 32 bits, read as
  two's complement.
\<close>

definition isspace :: "char \<Rightarrow> bool" where
  "isspace c = (of_char c \<in> {32, 9, 10, 11, 12, 13 :: nat})"

definition isdigit :: "char \<Rightarrow> bool" where
  "isdigit c = (48 \<le> (of_char c :: nat) \<and> (of_char c :: nat) \<le> 57)"

fun decimal_prefix :: "int \<Rightarrow> string \<Rightarrow> int" where
  "decimal_prefix acc [] = acc"
| "decimal_prefix acc (c # cs) =
     (if isdigit c then decimal_prefix (10 * acc + (of_char c - 48)) cs else acc)"

definition strtol :: "string \<Rightarrow> int" where
  "strtol nptr =
     (let s = dropWhile isspace nptr;
          v = (case s of
                 [] \<Rightarrow> 0
               | c # cs \<Rightarrow>
                   if c = CHR ''-'' then - decimal_prefix 0 cs
                   else if c = CHR ''+'' then decimal_prefix 0 cs
                   else decimal_prefix 0 s)
      in max (- (2 ^ 63)) (min (2 ^ 63 - 1) v))"

definition atoi :: "string \<Rightarrow> int" where
  "atoi nptr = sint (word_of_int (strtol nptr) :: 32 word)"

text \<open>
  \<^verbatim>\<open>getopt_long\<close> is libc's.  A run of the driver is given by what its calls return, one
  after the other, until it returns -1 (each option letter with its \<^verbatim>\<open>optarg\<close>, and
  \<open>OPT_UNRECOGNIZED\<close> for every other return value), and by the arguments that are left
  (\<^verbatim>\<open>argv + optind\<close>).
\<close>

datatype getopt_result =
    OPT_d
  | OPT_h
  | OPT_u string
  | OPT_t string
  | OPT_n
  | OPT_v
  | OPT_UNRECOGNIZED

text \<open>The local variables of \<^verbatim>\<open>main\<close> that the options set.\<close>

record main_vars =
  udid :: "string option"
  use_network :: bool
  timeout :: int

datatype 'a flow = Return int | Continue 'a

definition EXIT_SUCCESS :: int where
  "EXIT_SUCCESS = 0"

definition EXIT_FAILURE :: int where
  "EXIT_FAILURE = 1"

definition TOOL_NAME :: string where
  "TOOL_NAME = ''idevicepower''"

text \<open>The loop of lines 105-144 over the options.\<close>

fun main_getopt :: "getopt_result list \<Rightarrow> main_vars \<Rightarrow> event list \<times> main_vars flow" where
  "main_getopt [] vars = ([], Continue vars)"
| "main_getopt (OPT_d # rest) vars =
     (case main_getopt rest vars of (evs, r) \<Rightarrow> (IDEVICE_SET_DEBUG_LEVEL # evs, r))"
| "main_getopt (OPT_u optarg # rest) vars =
     (if optarg = [] then ([PRINT_USAGE True], Return 2)
      else main_getopt rest (vars\<lparr>udid := Some optarg\<rparr>))"
| "main_getopt (OPT_t optarg # rest) vars =
     (if optarg = [] then ([PRINT_USAGE True], Return 2)
      else
        (let t = atoi optarg in
         if t \<le> 0 then ([PRINT_USAGE True], Return 2)
         else main_getopt rest (vars\<lparr>timeout := t\<rparr>)))"
| "main_getopt (OPT_n # rest) vars = main_getopt rest (vars\<lparr>use_network := True\<rparr>)"
| "main_getopt (OPT_h # rest) vars = ([PRINT_USAGE False], Return 0)"
| "main_getopt (OPT_v # rest) vars = ([PRINT_VERSION], Return 0)"
| "main_getopt (OPT_UNRECOGNIZED # rest) vars = ([PRINT_USAGE True], Return 2)"

subsection \<open>idevicepower.c: the run\<close>

datatype cmd_mode = CMD_NONE | CMD_WIRELESS_SYNC | CMD_USER_IDLE_SLEEP | CMD_SYSTEM_SLEEP

text \<open>Lines 154-162: the sub-command.\<close>

definition main_cmd :: "string \<Rightarrow> cmd_mode" where
  "main_cmd arg =
     (if arg = ''sync'' then CMD_WIRELESS_SYNC
      else if arg = ''idle'' then CMD_USER_IDLE_SLEEP
      else if arg = ''sleep'' then CMD_SYSTEM_SLEEP
      else CMD_NONE)"

text \<open>Lines 199-216: the request. \<^verbatim>\<open>plist_new_uint\<close> takes the \<^verbatim>\<open>int\<close> as \<^verbatim>\<open>uint64_t\<close>.\<close>

definition main_assertion :: "cmd_mode \<Rightarrow> main_vars \<Rightarrow> plist_node" where
  "main_assertion cmd vars =
     (let a0 = plist_new_dict;
          a1 = plist_dict_set_item a0 ''CommandKey'' (plist_new_string ''CommandCreateAssertion'');
          a2 = (case cmd of
                  CMD_WIRELESS_SYNC \<Rightarrow>
                    plist_dict_set_item a1 ''AssertionTypeKey''
                      (plist_new_string ''AMDPowerAssertionTypeWirelessSync'')
                | CMD_USER_IDLE_SLEEP \<Rightarrow>
                    plist_dict_set_item a1 ''AssertionTypeKey''
                      (plist_new_string ''PreventUserIdleSystemSleep'')
                | CMD_SYSTEM_SLEEP \<Rightarrow>
                    plist_dict_set_item a1 ''AssertionTypeKey''
                      (plist_new_string ''PreventSystemSleep'')
                | CMD_NONE \<Rightarrow> a1);
          a3 = plist_dict_set_item a2 ''AssertionNameKey'' (plist_new_string TOOL_NAME);
          a4 = plist_dict_set_item a3 ''AssertionTimeoutKey''
                 (plist_new_uint (word_of_int (timeout vars)));
          a5 = plist_dict_set_item a4 ''AssertionDetailKey'' (plist_new_string ''power update'')
      in a5)"

text \<open>The content of a local variable whose address was passed to a callee.\<close>

definition slot_of :: "'a option option \<Rightarrow> 'a option" where
  "slot_of p = (case p of None \<Rightarrow> None | Some v \<Rightarrow> v)"

text \<open>Lines 234-235: the duration of the hold, the argument of \<^verbatim>\<open>sleep\<close>.\<close>

definition main_hold :: "main_vars \<Rightarrow> int" where
  "main_hold vars = (if timeout vars > 10 then timeout vars - 10 else timeout vars)"

text \<open>
  Lines 199-238, entered when \<^verbatim>\<open>power_client_new\<close> has succeeded: the request is built and
  sent, the answer awaited, the assertion held, the client freed.  The result is the value
  of \<^verbatim>\<open>result\<close> and of \<^verbatim>\<open>assertion\<close> at line 239.
\<close>

definition main_exchange ::
  "world \<Rightarrow> power_client_t \<Rightarrow> cmd_mode \<Rightarrow> main_vars \<Rightarrow> event list \<times> (fault + int \<times> plist_t)" where
  "main_exchange w power_client cmd vars =
     (let assertion = main_assertion cmd vars in
      case power_send w power_client (Some assertion) of
        (sent, Inl f) \<Rightarrow> (sent, Inl f)
      | (sent, Inr perr) \<Rightarrow>
          let freed = sent @ [PLIST_FREE (Some assertion)] in
          (case (if perr \<noteq> POWER_E_SUCCESS then (freed, Inr (EXIT_FAILURE, None))
                 else
                   (case power_receive w power_client (Some None) of
                      (received, Inl f) \<Rightarrow> (freed @ received, Inl f)
                    | (received, Inr (perr', assertion')) \<Rightarrow>
                        (freed @ received,
                         Inr (if perr' \<noteq> POWER_E_SUCCESS then EXIT_FAILURE else EXIT_SUCCESS,
                              slot_of assertion')))) of
             (evs, Inl f) \<Rightarrow> (evs, Inl f)
           | (evs, Inr (result, assertion')) \<Rightarrow>
               (evs @ [SLEEP (nat (main_hold vars))] @ fst (power_client_free w power_client),
                Inr (result, assertion'))))"

text \<open>Lines 195-242: the branch on the service descriptor and on \<^verbatim>\<open>power_client_new\<close>.\<close>

definition main_power ::
  "world \<Rightarrow> idevice_t \<Rightarrow> lockdownd_error_t \<Rightarrow> lockdownd_service_descriptor_t \<Rightarrow> cmd_mode \<Rightarrow>
     main_vars \<Rightarrow> event list \<times> (fault + int \<times> plist_t)" where
  "main_power w device ret service cmd vars =
     (if ret = LOCKDOWN_E_SUCCESS \<and> (case service of None \<Rightarrow> False | Some s \<Rightarrow> port s > 0)
      then
        (case power_client_new w device service (Some None) of
           (evs, Inl f) \<Rightarrow> (evs, Inl f)
         | (evs, Inr (e, power_client)) \<Rightarrow>
             if e \<noteq> POWER_E_SUCCESS then (evs, Inr (EXIT_FAILURE, None))
             else
               (case main_exchange w (slot_of power_client) cmd vars of
                  (evs', r) \<Rightarrow> (evs @ evs', r)))
      else ([], Inr (EXIT_FAILURE, None)))"

text \<open>Lines 244-257: what is released on the way out once the service has been started.\<close>

definition main_cleanup ::
  "lockdownd_service_descriptor_t \<Rightarrow> idevice_t \<Rightarrow> plist_t \<Rightarrow> event list" where
  "main_cleanup service device assertion =
     (if service \<noteq> None then [LOCKDOWND_SERVICE_DESCRIPTOR_FREE service] else [])
       @ [IDEVICE_FREE device]
       @ (if assertion \<noteq> None then [PLIST_FREE assertion] else [])"

text \<open>The third argument of \<^verbatim>\<open>idevice_new_with_options\<close> at line 171.\<close>

definition lookup_options :: "main_vars \<Rightarrow> idevice_options list" where
  "lookup_options vars =
     (if use_network vars then [IDEVICE_LOOKUP_USBMUX, IDEVICE_LOOKUP_NETWORK]
      else [IDEVICE_LOOKUP_USBMUX])"

text \<open>
  Lines 145-259: \<^verbatim>\<open>main\<close> after the options.  \<^verbatim>\<open>result\<close> starts as \<^verbatim>\<open>EXIT_FAILURE\<close>;
  the label \<^verbatim>\<open>cleanup\<close> frees \<^verbatim>\<open>assertion\<close> when it is set and returns \<^verbatim>\<open>result\<close>.
\<close>

definition main_run :: "world \<Rightarrow> main_vars \<Rightarrow> string list \<Rightarrow> event list \<times> (fault + int)" where
  "main_run w vars argv =
     (case argv of
        [] \<Rightarrow> ([PRINT_USAGE True], Inr 2)
      | arg0 # _ \<Rightarrow>
          let cmd = main_cmd arg0 in
          if cmd = CMD_NONE then ([PRINT_USAGE True], Inr EXIT_FAILURE)
          else
            (case idevice_new_with_options w (udid vars) (lookup_options vars) of
               (ierr, device) \<Rightarrow>
                 let t1 = [IDEVICE_NEW_WITH_OPTIONS (udid vars) (lookup_options vars) ierr
                             device]
                 in
                 if IDEVICE_E_SUCCESS \<noteq> ierr then (t1, Inr EXIT_FAILURE)
                 else
                   (case lockdownd_client_new_with_handshake w device TOOL_NAME of
                      (ret, lockdown_client) \<Rightarrow>
                        let t2 = t1 @ [LOCKDOWND_CLIENT_NEW_WITH_HANDSHAKE device TOOL_NAME ret
                                         lockdown_client]
                        in
                        if LOCKDOWN_E_SUCCESS \<noteq> ret then
                          (t2 @ [IDEVICE_FREE device], Inr EXIT_FAILURE)
                        else
                          (case lockdownd_start_service w lockdown_client
                                  ''com.apple.mobile.assertion_agent'' of
                             (ret', service) \<Rightarrow>
                               let t3 = t2 @ [LOCKDOWND_START_SERVICE lockdown_client
                                                ''com.apple.mobile.assertion_agent'' ret' service,
                                              LOCKDOWND_CLIENT_FREE lockdown_client]
                               in
                               if ret' \<noteq> LOCKDOWN_E_SUCCESS then
                                 (t3 @ [IDEVICE_FREE device], Inr EXIT_FAILURE)
                               else
                                 (case main_power w device ret' service cmd vars of
                                    (t4, Inl f) \<Rightarrow> (t3 @ t4, Inl f)
                                  | (t4, Inr (result, assertion)) \<Rightarrow>
                                      (t3 @ t4 @ main_cleanup service device assertion,
                                       Inr result))))))"

text \<open>The initial values of lines 84-90.\<close>

definition main_initial_vars :: main_vars where
  "main_initial_vars = \<lparr>udid = None, use_network = False, timeout = 60\<rparr>"

text \<open>\<^verbatim>\<open>main\<close> (lines 76-259).\<close>

definition main ::
  "world \<Rightarrow> getopt_result list \<Rightarrow> string list \<Rightarrow> event list \<times> (fault + int)" where
  "main w opts argv =
     (case main_getopt opts main_initial_vars of
        (evs, Return status) \<Rightarrow> (evs, Inr status)
      | (evs, Continue vars) \<Rightarrow>
          (case main_run w vars argv of (evs', r) \<Rightarrow> (evs @ evs', r)))"

subsection \<open>Reading a trace\<close>

fun is_send :: "event \<Rightarrow> bool" where
  "is_send (PROPERTY_LIST_SERVICE_SEND_BINARY_PLIST c p e) = True"
| "is_send _ = False"

fun is_receive :: "event \<Rightarrow> bool" where
  "is_receive (PROPERTY_LIST_SERVICE_RECEIVE_PLIST_WITH_TIMEOUT c t e p) = True"
| "is_receive _ = False"

fun is_sleep :: "event \<Rightarrow> bool" where
  "is_sleep (SLEEP n) = True"
| "is_sleep _ = False"

text \<open>The events of the exchange, and those together with the hold.\<close>

fun is_exchange :: "event \<Rightarrow> bool" where
  "is_exchange e = (is_send e \<or> is_receive e)"

fun is_exchange_or_sleep :: "event \<Rightarrow> bool" where
  "is_exchange_or_sleep e = (is_send e \<or> is_receive e \<or> is_sleep e)"

text \<open>What the loop over the options records.\<close>

fun is_getopt_event :: "event \<Rightarrow> bool" where
  "is_getopt_event IDEVICE_SET_DEBUG_LEVEL = True"
| "is_getopt_event (PRINT_USAGE is_error) = True"
| "is_getopt_event PRINT_VERSION = True"
| "is_getopt_event _ = False"

text \<open>A call of the transport: one of the four functions of the property list service.\<close>

fun is_transport :: "event \<Rightarrow> bool" where
  "is_transport (PROPERTY_LIST_SERVICE_CLIENT_NEW d s e c) = True"
| "is_transport (PROPERTY_LIST_SERVICE_CLIENT_FREE c e) = True"
| "is_transport (PROPERTY_LIST_SERVICE_SEND_BINARY_PLIST c p e) = True"
| "is_transport (PROPERTY_LIST_SERVICE_RECEIVE_PLIST_WITH_TIMEOUT c t e p) = True"
| "is_transport _ = False"

fun is_device_resolution :: "event \<Rightarrow> bool" where
  "is_device_resolution (IDEVICE_NEW_WITH_OPTIONS u opts e d) = True"
| "is_device_resolution _ = False"

text \<open>The documents handed to the transport's send, and the durations slept, in order.\<close>

fun sent_documents :: "event list \<Rightarrow> plist_t list" where
  "sent_documents [] = []"
| "sent_documents (PROPERTY_LIST_SERVICE_SEND_BINARY_PLIST c p e # evs) = p # sent_documents evs"
| "sent_documents (_ # evs) = sent_documents evs"

fun sleeps :: "event list \<Rightarrow> nat list" where
  "sleeps [] = []"
| "sleeps (SLEEP n # evs) = n # sleeps evs"
| "sleeps (_ # evs) = sleeps evs"

text \<open>
  A send that \<^verbatim>\<open>power_send\<close> reports as \<^verbatim>\<open>POWER_E_SUCCESS\<close>, and a receive that
  \<^verbatim>\<open>power_receive_with_timeout\<close> reports as \<^verbatim>\<open>POWER_E_SUCCESS\<close>.
\<close>

fun send_succeeded :: "event \<Rightarrow> bool" where
  "send_succeeded (PROPERTY_LIST_SERVICE_SEND_BINARY_PLIST c p e) =
     (power_error e = POWER_E_SUCCESS)"
| "send_succeeded _ = False"

fun receive_succeeded :: "event \<Rightarrow> bool" where
  "receive_succeeded (PROPERTY_LIST_SERVICE_RECEIVE_PLIST_WITH_TIMEOUT c t e p) =
     (power_error e = POWER_E_SUCCESS \<and> p \<noteq> None)"
| "receive_succeeded _ = False"

text \<open>
  A stage that failed: device resolution, the lockdownd handshake, the start of the service
  (an error, or no descriptor with a port), the connection of the client, the send or the
  receive.
\<close>

fun stage_failed :: "event \<Rightarrow> bool" where
  "stage_failed (IDEVICE_NEW_WITH_OPTIONS u opts e d) = (e \<noteq> IDEVICE_E_SUCCESS)"
| "stage_failed (LOCKDOWND_CLIENT_NEW_WITH_HANDSHAKE d l e c) = (e \<noteq> LOCKDOWN_E_SUCCESS)"
| "stage_failed (LOCKDOWND_START_SERVICE c n e s) =
     (e \<noteq> LOCKDOWN_E_SUCCESS \<or> (case s of None \<Rightarrow> True | Some d \<Rightarrow> port d = 0))"
| "stage_failed (PROPERTY_LIST_SERVICE_CLIENT_NEW d s e c) = (power_error e \<noteq> POWER_E_SUCCESS)"
| "stage_failed (PROPERTY_LIST_SERVICE_SEND_BINARY_PLIST c p e) =
     (power_error e \<noteq> POWER_E_SUCCESS)"
| "stage_failed (PROPERTY_LIST_SERVICE_RECEIVE_PLIST_WITH_TIMEOUT c t e p) =
     (power_error e \<noteq> POWER_E_SUCCESS \<or> p = None)"
| "stage_failed _ = False"

text \<open>The run stopped at the help or at the version option.\<close>

fun is_help_or_version :: "event \<Rightarrow> bool" where
  "is_help_or_version (PRINT_USAGE is_error) = (\<not> is_error)"
| "is_help_or_version PRINT_VERSION = True"
| "is_help_or_version _ = False"

subsection \<open>Worlds to run the code in\<close>

text \<open>
  A device that is found, lets every stage succeed and acknowledges a request with an empty
  dictionary; and the same device with a transport whose receive times out, fails to parse
  the payload, hands over a document together with an error, or reports success without a
  document.
\<close>

definition ready_world :: world where
  "ready_world =
     \<lparr> property_list_service_client_new = (\<lambda>d s. (PROPERTY_LIST_SERVICE_E_SUCCESS, Some 3)),
       property_list_service_client_free = (\<lambda>c. PROPERTY_LIST_SERVICE_E_SUCCESS),
       property_list_service_send_binary_plist =
         (\<lambda>c p. if c = None \<or> p = None then PROPERTY_LIST_SERVICE_E_INVALID_ARG
                 else PROPERTY_LIST_SERVICE_E_SUCCESS),
       property_list_service_receive_plist_with_timeout =
         (\<lambda>c t. (PROPERTY_LIST_SERVICE_E_SUCCESS, Some (PLIST_DICT []))),
       malloc_succeeds = True,
       idevice_new_with_options = (\<lambda>u opts. (IDEVICE_E_SUCCESS, Some 1)),
       lockdownd_client_new_with_handshake = (\<lambda>d l. (LOCKDOWN_E_SUCCESS, Some 2)),
       lockdownd_start_service = (\<lambda>c n. (LOCKDOWN_E_SUCCESS, Some \<lparr>port = 49152\<rparr>)) \<rparr>"

definition timeout_world :: world where
  "timeout_world =
     ready_world\<lparr>property_list_service_receive_plist_with_timeout :=
       (\<lambda>c t. (PROPERTY_LIST_SERVICE_E_RECEIVE_TIMEOUT, None))\<rparr>"

definition malformed_world :: world where
  "malformed_world =
     ready_world\<lparr>property_list_service_receive_plist_with_timeout :=
       (\<lambda>c t. (PROPERTY_LIST_SERVICE_E_PLIST_ERROR, None))\<rparr>"

definition partial_world :: world where
  "partial_world =
     ready_world\<lparr>property_list_service_receive_plist_with_timeout :=
       (\<lambda>c t. (PROPERTY_LIST_SERVICE_E_NOT_ENOUGH_DATA, Some (PLIST_STRING ''partial'')))\<rparr>"

definition silent_world :: world where
  "silent_world =
     ready_world\<lparr>property_list_service_receive_plist_with_timeout :=
       (\<lambda>c t. (PROPERTY_LIST_SERVICE_E_SUCCESS, None))\<rparr>"

section \<open>Theorems\<close>

subsection \<open>The translation of error codes\<close>

text \<open>
  C5.  \<open>power_error\<close> is a function on the whole of the transport's error type: each of the
  seven codes that power.c names is sent to the code of the same meaning
  (\<open>RECEIVE_TIMEOUT\<close> to \<open>POWER_E_TIMEOUT\<close>), and every other transport code, whatever
  its number, to \<open>POWER_E_UNKNOWN_ERROR\<close>.
\<close>

theorem power_error_table:
  "power_error PROPERTY_LIST_SERVICE_E_SUCCESS = POWER_E_SUCCESS
   \<and> power_error PROPERTY_LIST_SERVICE_E_INVALID_ARG = POWER_E_INVALID_ARG
   \<and> power_error PROPERTY_LIST_SERVICE_E_PLIST_ERROR = POWER_E_PLIST_ERROR
   \<and> power_error PROPERTY_LIST_SERVICE_E_MUX_ERROR = POWER_E_MUX_ERROR
   \<and> power_error PROPERTY_LIST_SERVICE_E_SSL_ERROR = POWER_E_SSL_ERROR
   \<and> power_error PROPERTY_LIST_SERVICE_E_NOT_ENOUGH_DATA = POWER_E_NOT_ENOUGH_DATA
   \<and> power_error PROPERTY_LIST_SERVICE_E_RECEIVE_TIMEOUT = POWER_E_TIMEOUT
   \<and> power_error (PROPERTY_LIST_SERVICE_E_OTHER n) = POWER_E_UNKNOWN_ERROR"
  by simp

text \<open>The \<^verbatim>\<open>return 0\<close> of line 89 is \<open>POWER_E_SUCCESS\<close>, and no other code is 0.\<close>

lemma power_error_value_zero: "(power_error_value e = 0) = (e = POWER_E_SUCCESS)"
  by (cases e) simp_all

lemma power_error_success: "(power_error e = POWER_E_SUCCESS) = (e = PROPERTY_LIST_SERVICE_E_SUCCESS)"
  by (cases e) simp_all

subsection \<open>Success of a send and of a receive, read from the trace\<close>

lemma power_send_succeeded:
  "(snd (power_send w client plist) = Inr POWER_E_SUCCESS)
     = list_ex send_succeeded (fst (power_send w client plist))"
  by (simp add: power_send_def Let_def split: option.splits)

lemma power_receive_succeeded:
  "(\<exists>out. snd (power_receive_with_timeout w client (Some slot) t) = Inr (POWER_E_SUCCESS, out))
     = list_ex receive_succeeded (fst (power_receive_with_timeout w client (Some slot) t))"
  by (auto simp: power_receive_with_timeout_def Let_def split: option.splits prod.splits)

subsection \<open>Receiving\<close>

text \<open>
  Whatever the transport reports, \<open>power_receive_with_timeout\<close> returns one of two codes.
\<close>

lemma power_receive_with_timeout_codes:
  "snd (power_receive_with_timeout w client plist t) = Inr (e, out) \<Longrightarrow>
     e = POWER_E_SUCCESS \<or> e = POWER_E_MUX_ERROR"
  by (auto simp: power_receive_with_timeout_def Let_def split: option.splits prod.splits if_splits)

text \<open>
  C1.  The specification asks for three outcomes of \<open>power_receive_with_timeout\<close> to stay apart:
  success with the document, \<open>POWER_E_TIMEOUT\<close> when the window elapses, and
  \<open>POWER_E_PLIST_ERROR\<close> for a payload that cannot be parsed.  The code evaluated on a
  transport that times out, and on one that reports a malformed payload: both calls return
  \<open>POWER_E_MUX_ERROR\<close>, the constant of line 139.
\<close>

theorem power_receive_with_timeout_masks_the_fault:
  "power_receive_with_timeout timeout_world (Some \<lparr>parent = Some 3\<rparr>) (Some None) 1000 =
     ([PROPERTY_LIST_SERVICE_RECEIVE_PLIST_WITH_TIMEOUT (Some 3) 1000
         PROPERTY_LIST_SERVICE_E_RECEIVE_TIMEOUT None,
       PLIST_FREE None],
      Inr (POWER_E_MUX_ERROR, Some None))
   \<and> power_receive_with_timeout malformed_world (Some \<lparr>parent = Some 3\<rparr>) (Some None) 1000 =
     ([PROPERTY_LIST_SERVICE_RECEIVE_PLIST_WITH_TIMEOUT (Some 3) 1000
         PROPERTY_LIST_SERVICE_E_PLIST_ERROR None,
       PLIST_FREE None],
      Inr (POWER_E_MUX_ERROR, Some None))"
  by (simp add: power_receive_with_timeout_def timeout_world_def malformed_world_def
      ready_world_def)

theorem power_receive_with_timeout_masks_the_fault_witness:
  "power_error PROPERTY_LIST_SERVICE_E_RECEIVE_TIMEOUT = POWER_E_TIMEOUT
   \<and> snd (power_receive_with_timeout timeout_world (Some \<lparr>parent = Some 3\<rparr>) (Some None) 1000)
       = Inr (POWER_E_MUX_ERROR, Some None)
   \<and> power_error PROPERTY_LIST_SERVICE_E_PLIST_ERROR = POWER_E_PLIST_ERROR
   \<and> snd (power_receive_with_timeout malformed_world (Some \<lparr>parent = Some 3\<rparr>) (Some None) 1000)
       = Inr (POWER_E_MUX_ERROR, Some None)"
  using power_receive_with_timeout_masks_the_fault by simp

text \<open>
  C2.  When the transport's receive reports success and supplies no document, the call
  returns \<open>POWER_E_MUX_ERROR\<close> and leaves the caller's slot as it was; and whenever a call
  returns \<open>POWER_E_SUCCESS\<close>, the caller's slot holds a document.
\<close>

theorem power_receive_with_timeout_no_document:
  "(property_list_service_receive_plist_with_timeout w (parent c) t
      = (PROPERTY_LIST_SERVICE_E_SUCCESS, None) \<longrightarrow>
    snd (power_receive_with_timeout w (Some c) plist t) = Inr (POWER_E_MUX_ERROR, plist))
   \<and> (snd (power_receive_with_timeout w' client' plist' t') = Inr (POWER_E_SUCCESS, out) \<longrightarrow>
      (\<exists>document. out = Some (Some document)))"
  by (auto simp: power_receive_with_timeout_def Let_def split: option.splits prod.splits if_splits)

theorem power_receive_with_timeout_no_document_witness:
  "property_list_service_receive_plist_with_timeout silent_world (parent \<lparr>parent = Some 3\<rparr>) 1000
      = (PROPERTY_LIST_SERVICE_E_SUCCESS, None)
   \<and> snd (power_receive_with_timeout silent_world (Some \<lparr>parent = Some 3\<rparr>) (Some None) 1000)
      = Inr (POWER_E_MUX_ERROR, Some None)
   \<and> snd (power_receive_with_timeout ready_world (Some \<lparr>parent = Some 3\<rparr>) (Some None) 1000)
      = Inr (POWER_E_SUCCESS, Some (Some (PLIST_DICT [])))
   \<and> (\<exists>document. Some (Some (PLIST_DICT [])) = Some (Some document))"
  using power_receive_with_timeout_no_document
    [of silent_world "\<lparr>parent = Some 3\<rparr>" 1000 "Some None" ready_world
      "Some \<lparr>parent = Some 3\<rparr>" "Some None" 1000 "Some (Some (PLIST_DICT []))"]
  by (simp add: power_receive_with_timeout_def silent_world_def ready_world_def)

text \<open>
  C9.  On every return of \<open>power_receive_with_timeout\<close> with a code other than
  \<open>POWER_E_SUCCESS\<close>, the caller's slot is what it was before the call, and the trace is the
  transport's receive followed by \<^verbatim>\<open>plist_free\<close> of whatever that receive handed over; so
  the slot is written on the success path only.
\<close>

theorem power_receive_with_timeout_failure_frees:
  assumes "snd (power_receive_with_timeout w client plist t) = Inr (e, plist')"
    and "e \<noteq> POWER_E_SUCCESS"
  shows "plist' = plist
    \<and> (\<exists>c err document. client = Some c
         \<and> property_list_service_receive_plist_with_timeout w (parent c) t = (err, document)
         \<and> fst (power_receive_with_timeout w client plist t) =
             [PROPERTY_LIST_SERVICE_RECEIVE_PLIST_WITH_TIMEOUT (parent c) t err document,
              PLIST_FREE document])"
  using assms
  by (auto simp: power_receive_with_timeout_def Let_def split: option.splits prod.splits if_splits)

theorem power_receive_with_timeout_failure_frees_witness:
  "snd (power_receive_with_timeout partial_world (Some \<lparr>parent = Some 3\<rparr>)
          (Some (Some (PLIST_STRING ''earlier''))) 1000)
     = Inr (POWER_E_MUX_ERROR, Some (Some (PLIST_STRING ''earlier'')))
   \<and> POWER_E_MUX_ERROR \<noteq> POWER_E_SUCCESS
   \<and> fst (power_receive_with_timeout partial_world (Some \<lparr>parent = Some 3\<rparr>)
          (Some (Some (PLIST_STRING ''earlier''))) 1000)
     = [PROPERTY_LIST_SERVICE_RECEIVE_PLIST_WITH_TIMEOUT (Some 3) 1000
          PROPERTY_LIST_SERVICE_E_NOT_ENOUGH_DATA (Some (PLIST_STRING ''partial'')),
        PLIST_FREE (Some (PLIST_STRING ''partial''))]"
  using power_receive_with_timeout_failure_frees
    [of partial_world "Some \<lparr>parent = Some 3\<rparr>" "Some (Some (PLIST_STRING ''earlier''))" 1000
      POWER_E_MUX_ERROR "Some (Some (PLIST_STRING ''earlier''))"]
  by (simp add: power_receive_with_timeout_def partial_world_def ready_world_def)

subsection \<open>Checks of the arguments\<close>

text \<open>
  \<^verbatim>\<open>power_client_new\<close> answers a null device or a null service descriptor by itself.
\<close>

lemma power_client_new_null_arguments:
  "device = None \<or> service = None \<Longrightarrow>
     power_client_new w device service (Some slot) = ([], Inr (POWER_E_INVALID_ARG, Some None))"
  by (auto simp: power_client_new_def)

text \<open>
  C3.  The specification asks \<^verbatim>\<open>power_send\<close> with a null document and \<^verbatim>\<open>power_receive\<close> with a
  null client to return \<open>POWER_E_INVALID_ARG\<close> from a check of their own, before any call
  of the transport.  The code evaluated there: \<^verbatim>\<open>power_send\<close> hands the null document to
  the transport's send and returns what that answers, and both receive functions dereference
  the null client and do not return.
\<close>

theorem power_send_and_receive_do_not_check:
  "power_send ready_world (Some \<lparr>parent = Some 3\<rparr>) None =
     ([PROPERTY_LIST_SERVICE_SEND_BINARY_PLIST (Some 3) None PROPERTY_LIST_SERVICE_E_INVALID_ARG],
      Inr POWER_E_INVALID_ARG)
   \<and> list_ex is_transport (fst (power_send ready_world (Some \<lparr>parent = Some 3\<rparr>) None))
   \<and> power_receive ready_world None (Some None) = ([], Inl NULL_DEREFERENCE)
   \<and> power_receive_with_timeout ready_world None (Some None) 1000 = ([], Inl NULL_DEREFERENCE)"
  by (simp add: power_send_def power_receive_def power_receive_with_timeout_def ready_world_def)

theorem power_send_and_receive_do_not_check_witness:
  "list_ex is_transport (fst (power_send ready_world (Some \<lparr>parent = Some 3\<rparr>) None))
   \<and> snd (power_receive ready_world None (Some None)) = Inl NULL_DEREFERENCE
   \<and> snd (power_receive_with_timeout ready_world None (Some None) 1000) = Inl NULL_DEREFERENCE"
  using power_send_and_receive_do_not_check by simp

text \<open>
  C4, as stated, fails: with the slot behind \<^verbatim>\<open>plist\<close> already holding a document,
  \<open>power_receive_with_timeout\<close> calls the transport and returns \<open>POWER_E_SUCCESS\<close>; and with
  the slot behind \<^verbatim>\<open>client\<close> already holding a client, \<open>power_client_new\<close> calls the
  transport, allocates and returns \<open>POWER_E_SUCCESS\<close>.
\<close>

theorem prepopulated_slot_counterexample:
  "power_receive_with_timeout ready_world (Some \<lparr>parent = Some 3\<rparr>)
     (Some (Some (PLIST_STRING ''earlier''))) 1000 =
     ([PROPERTY_LIST_SERVICE_RECEIVE_PLIST_WITH_TIMEOUT (Some 3) 1000
         PROPERTY_LIST_SERVICE_E_SUCCESS (Some (PLIST_DICT []))],
      Inr (POWER_E_SUCCESS, Some (Some (PLIST_DICT []))))
   \<and> power_client_new ready_world (Some 1) (Some \<lparr>port = 49152\<rparr>)
     (Some (Some \<lparr>parent = Some 9\<rparr>)) =
     ([PROPERTY_LIST_SERVICE_CLIENT_NEW (Some 1) (Some \<lparr>port = 49152\<rparr>)
         PROPERTY_LIST_SERVICE_E_SUCCESS (Some 3),
       MALLOC True],
      Inr (POWER_E_SUCCESS, Some (Some \<lparr>parent = Some 3\<rparr>)))"
  by (simp add: power_receive_with_timeout_def power_client_new_def ready_world_def)

text \<open>
  C4, amended.  \<open>power_receive_with_timeout\<close> does not look at the slot behind \<^verbatim>\<open>plist\<close>:
  called with a client and a slot that already holds a document, it makes the calls and
  returns the code that it makes and returns for an empty slot, and the transport's receive
  is among the calls.
\<close>

theorem power_receive_with_timeout_ignores_slot:
  "fst (power_receive_with_timeout w (Some c) (Some held) t)
     = fst (power_receive_with_timeout w (Some c) (Some None) t)
   \<and> map_sum id fst (snd (power_receive_with_timeout w (Some c) (Some held) t))
     = map_sum id fst (snd (power_receive_with_timeout w (Some c) (Some None) t))
   \<and> list_ex is_receive (fst (power_receive_with_timeout w (Some c) (Some held) t))"
  by (auto simp: power_receive_with_timeout_def Let_def split: option.splits prod.splits if_splits)

theorem power_receive_with_timeout_ignores_slot_witness:
  "fst (power_receive_with_timeout ready_world (Some \<lparr>parent = Some 3\<rparr>)
          (Some (Some (PLIST_STRING ''earlier''))) 1000)
     = fst (power_receive_with_timeout ready_world (Some \<lparr>parent = Some 3\<rparr>) (Some None) 1000)
   \<and> list_ex is_receive
         (fst (power_receive_with_timeout ready_world (Some \<lparr>parent = Some 3\<rparr>)
                 (Some (Some (PLIST_STRING ''earlier''))) 1000))"
  using power_receive_with_timeout_ignores_slot
    [of ready_world "\<lparr>parent = Some 3\<rparr>" "Some (PLIST_STRING ''earlier'')" 1000]
  by blast

text \<open>
  C10.  For a call of \<open>power_client_new\<close> with a non-null \<^verbatim>\<open>client\<close>, what the slot held
  on entry has no influence on the call: trace, code and final slot are those of the call
  with an empty slot, so the check of line 69 never sees a slot that is populated.  On every
  return with an error the slot holds \<^verbatim>\<open>NULL\<close>, hence not the client it held before; on
  success it holds the client that was allocated around the transport's client.
\<close>

theorem power_client_new_overwrites_slot:
  "power_client_new w device service (Some prior) = power_client_new w device service (Some None)
   \<and> (snd (power_client_new w device service (Some prior)) = Inr (e, client') \<and> e \<noteq> POWER_E_SUCCESS
        \<longrightarrow> client' = Some None \<and> (prior \<noteq> None \<longrightarrow> client' \<noteq> Some prior))
   \<and> (snd (power_client_new w device service (Some prior)) = Inr (POWER_E_SUCCESS, client'')
        \<longrightarrow> client'' = Some (Some \<lparr>parent = snd (property_list_service_client_new w device service)\<rparr>))"
  by (auto simp: power_client_new_def Let_def split: option.splits prod.splits if_splits)

theorem power_client_new_overwrites_slot_witness:
  "snd (power_client_new ready_world None (Some \<lparr>port = 49152\<rparr>)
          (Some (Some \<lparr>parent = Some 9\<rparr>)))
     = Inr (POWER_E_INVALID_ARG, Some None)
   \<and> POWER_E_INVALID_ARG \<noteq> POWER_E_SUCCESS
   \<and> Some \<lparr>parent = Some 9\<rparr> \<noteq> None
   \<and> Some None \<noteq> Some (Some \<lparr>parent = Some (9 :: nat)\<rparr>)
   \<and> snd (power_client_new ready_world (Some 1) (Some \<lparr>port = 49152\<rparr>)
          (Some (Some \<lparr>parent = Some 9\<rparr>)))
     = Inr (POWER_E_SUCCESS, Some (Some \<lparr>parent = Some 3\<rparr>))"
  using power_client_new_overwrites_slot
    [of ready_world None "Some \<lparr>port = 49152\<rparr>" "Some \<lparr>parent = Some 9\<rparr>"
      POWER_E_INVALID_ARG "Some None"]
    power_client_new_overwrites_slot
    [of ready_world "Some 1" "Some \<lparr>port = 49152\<rparr>" "Some \<lparr>parent = Some 9\<rparr>"
      POWER_E_INVALID_ARG "Some None" "Some (Some \<lparr>parent = Some 3\<rparr>)"]
  by (simp add: power_client_new_def ready_world_def)

subsection \<open>The driver: reading traces\<close>

lemma sleeps_append: "sleeps (xs @ ys) = sleeps xs @ sleeps ys"
  by (induction xs rule: sleeps.induct) simp_all

lemma sent_documents_append: "sent_documents (xs @ ys) = sent_documents xs @ sent_documents ys"
  by (induction xs rule: sent_documents.induct) simp_all

lemma debug_only_events:
  assumes "set evs \<subseteq> {IDEVICE_SET_DEBUG_LEVEL}"
  shows "sleeps evs = []" "sent_documents evs = []"
    "filter is_exchange_or_sleep evs = []" "filter is_exchange evs = []"
    "\<not> list_ex is_send evs" "\<not> list_ex send_succeeded evs" "\<not> list_ex receive_succeeded evs"
    "\<not> list_ex stage_failed evs" "\<not> list_ex is_help_or_version evs"
    "\<not> list_ex is_device_resolution evs"
  using assms by (induction evs; simp)+

lemma debug_only_transport:
  assumes "set evs \<subseteq> {IDEVICE_SET_DEBUG_LEVEL}"
  shows "\<not> list_ex is_transport evs"
  using assms by (induction evs; simp)

lemma getopt_events:
  assumes "list_all is_getopt_event evs"
  shows "\<not> list_ex send_succeeded evs" "\<not> list_ex receive_succeeded evs"
    "\<not> list_ex stage_failed evs" "\<not> list_ex is_device_resolution evs"
  using assms by (induction evs; auto elim: is_getopt_event.elims)+

lemma getopt_events_transport:
  assumes "list_all is_getopt_event evs"
  shows "\<not> list_ex is_transport evs"
  using assms by (induction evs; auto elim: is_getopt_event.elims)

lemma cleanup_events:
  "sleeps (main_cleanup service device assertion) = []"
  "sent_documents (main_cleanup service device assertion) = []"
  "filter is_exchange_or_sleep (main_cleanup service device assertion) = []"
  "filter is_exchange (main_cleanup service device assertion) = []"
  "\<not> list_ex is_send (main_cleanup service device assertion)"
  "\<not> list_ex send_succeeded (main_cleanup service device assertion)"
  "\<not> list_ex receive_succeeded (main_cleanup service device assertion)"
  "\<not> list_ex stage_failed (main_cleanup service device assertion)"
  "\<not> list_ex is_help_or_version (main_cleanup service device assertion)"
  "\<not> list_ex is_device_resolution (main_cleanup service device assertion)"
  by (simp_all add: main_cleanup_def)

subsection \<open>The driver: the loop over the options\<close>

lemma main_initial_timeout: "0 < timeout main_initial_vars"
  by (simp add: main_initial_vars_def)

lemma main_getopt_Continue:
  "main_getopt opts vars = (evs, Continue vars') \<Longrightarrow> 0 < timeout vars \<Longrightarrow>
     0 < timeout vars' \<and> set evs \<subseteq> {IDEVICE_SET_DEBUG_LEVEL}"
  by (induction opts vars arbitrary: evs rule: main_getopt.induct)
     (auto simp: Let_def split: if_splits prod.splits)

lemma main_getopt_Return:
  "main_getopt opts vars = (evs, Return status) \<Longrightarrow>
     (status = 0 \<or> status = 2) \<and> (status = 0) = list_ex is_help_or_version evs
     \<and> list_all is_getopt_event evs"
  by (induction opts vars arbitrary: evs rule: main_getopt.induct)
     (auto simp: Let_def split: if_splits prod.splits)

lemma main_Continue:
  assumes "main_getopt opts main_initial_vars = (evs, Continue vars)"
  shows "main w opts argv = (evs @ fst (main_run w vars argv), snd (main_run w vars argv))"
  using assms by (simp add: main_def split: prod.splits)

subsection \<open>The driver: the stages of a run\<close>

lemma main_exchange_facts:
  assumes "main_exchange w (Some c) cmd vars = (tr, r)"
  shows "\<exists>result assertion. r = Inr (result, assertion)
     \<and> (result = 0) = (list_ex send_succeeded tr \<and> list_ex receive_succeeded tr)
     \<and> (list_ex stage_failed tr \<longrightarrow> result \<noteq> 0)
     \<and> \<not> list_ex is_help_or_version tr
     \<and> \<not> list_ex is_device_resolution tr
     \<and> list_ex is_send tr
     \<and> sleeps tr = [nat (main_hold vars)]
     \<and> sent_documents tr = [Some (main_assertion cmd vars)]
     \<and> filter is_exchange_or_sleep tr = filter is_exchange tr
           @ [SLEEP (nat (main_hold vars))]"
  using assms
  by (auto simp: main_exchange_def power_send_def power_receive_def
        power_receive_with_timeout_def power_client_free_def slot_of_def
        EXIT_SUCCESS_def EXIT_FAILURE_def Let_def
      split: option.splits prod.splits if_splits sum.splits)

lemma main_power_facts:
  assumes "main_power w device ret service cmd vars = (tr, Inr (result, assertion))"
  shows "(result = 0) = (list_ex send_succeeded tr \<and> list_ex receive_succeeded tr)
     \<and> (list_ex stage_failed tr \<longrightarrow> result \<noteq> 0)
     \<and> ((case service of None \<Rightarrow> True | Some d \<Rightarrow> port d = 0) \<longrightarrow> result \<noteq> 0)
     \<and> \<not> list_ex is_help_or_version tr
     \<and> \<not> list_ex is_device_resolution tr
     \<and> (list_ex is_send tr \<longrightarrow>
          sleeps tr = [nat (main_hold vars)]
          \<and> sent_documents tr = [Some (main_assertion cmd vars)]
          \<and> filter is_exchange_or_sleep tr = filter is_exchange tr
               @ [SLEEP (nat (main_hold vars))])"
  using assms
  by (auto simp: main_power_def power_client_new_def slot_of_def
        EXIT_SUCCESS_def EXIT_FAILURE_def Let_def sleeps_append sent_documents_append
      split: option.splits prod.splits if_splits sum.splits
      dest!: main_exchange_facts)

lemma main_power_fault:
  assumes "main_power w device ret service cmd vars = (tr, Inl f)"
  shows "f = NULL_DEREFERENCE \<and> \<not> malloc_succeeds w \<and> \<not> list_ex is_send tr
     \<and> \<not> list_ex is_device_resolution tr \<and> sleeps tr = []"
  using assms
  by (auto simp: main_power_def power_client_new_def slot_of_def Let_def
      split: option.splits prod.splits if_splits sum.splits
      dest!: main_exchange_facts)

text \<open>The ways through \<open>main_run\<close>, each with its trace.\<close>

lemma main_run_cases:
  assumes "main_run w vars argv = (tr, r)"
  obtains
    (no_command) "argv = []" "tr = [PRINT_USAGE True]" "r = Inr 2"
  | (unsupported) a rest where "argv = a # rest" "main_cmd a = CMD_NONE"
      "tr = [PRINT_USAGE True]" "r = Inr 1"
  | (no_device) a rest ierr device where "argv = a # rest" "ierr \<noteq> IDEVICE_E_SUCCESS"
      "tr = [IDEVICE_NEW_WITH_OPTIONS (udid vars) (lookup_options vars) ierr device]"
      "r = Inr 1"
  | (no_handshake) a rest device ret lc where "argv = a # rest" "ret \<noteq> LOCKDOWN_E_SUCCESS"
      "tr = [IDEVICE_NEW_WITH_OPTIONS (udid vars) (lookup_options vars) IDEVICE_E_SUCCESS device,
             LOCKDOWND_CLIENT_NEW_WITH_HANDSHAKE device TOOL_NAME ret lc,
             IDEVICE_FREE device]"
      "r = Inr 1"
  | (no_service) a rest device lc ret service where "argv = a # rest"
      "ret \<noteq> LOCKDOWN_E_SUCCESS"
      "tr = [IDEVICE_NEW_WITH_OPTIONS (udid vars) (lookup_options vars) IDEVICE_E_SUCCESS device,
             LOCKDOWND_CLIENT_NEW_WITH_HANDSHAKE device TOOL_NAME LOCKDOWN_E_SUCCESS lc,
             LOCKDOWND_START_SERVICE lc ''com.apple.mobile.assertion_agent'' ret service,
             LOCKDOWND_CLIENT_FREE lc,
             IDEVICE_FREE device]"
      "r = Inr 1"
  | (faulted) a rest device lc service t4 f where "argv = a # rest"
      "main_cmd a \<noteq> CMD_NONE"
      "main_power w device LOCKDOWN_E_SUCCESS service (main_cmd a) vars = (t4, Inl f)"
      "tr = [IDEVICE_NEW_WITH_OPTIONS (udid vars) (lookup_options vars) IDEVICE_E_SUCCESS device,
             LOCKDOWND_CLIENT_NEW_WITH_HANDSHAKE device TOOL_NAME LOCKDOWN_E_SUCCESS lc,
             LOCKDOWND_START_SERVICE lc ''com.apple.mobile.assertion_agent'' LOCKDOWN_E_SUCCESS
               service,
             LOCKDOWND_CLIENT_FREE lc]
            @ t4"
      "r = Inl f"
  | (started) a rest device lc service t4 status assertion where "argv = a # rest"
      "main_cmd a \<noteq> CMD_NONE"
      "main_power w device LOCKDOWN_E_SUCCESS service (main_cmd a) vars
         = (t4, Inr (status, assertion))"
      "r = Inr status"
      "tr = [IDEVICE_NEW_WITH_OPTIONS (udid vars) (lookup_options vars) IDEVICE_E_SUCCESS device,
             LOCKDOWND_CLIENT_NEW_WITH_HANDSHAKE device TOOL_NAME LOCKDOWN_E_SUCCESS lc,
             LOCKDOWND_START_SERVICE lc ''com.apple.mobile.assertion_agent'' LOCKDOWN_E_SUCCESS
               service,
             LOCKDOWND_CLIENT_FREE lc]
            @ t4
            @ main_cleanup service device assertion"
proof (cases argv)
  case Nil
  with assms show ?thesis
    by (intro no_command) (simp_all add: main_run_def)
next
  case (Cons a rest)
  show ?thesis
  proof (cases "main_cmd a = CMD_NONE")
    case True
    with assms Cons show ?thesis
      by (intro unsupported [of a rest]) (simp_all add: main_run_def EXIT_FAILURE_def)
  next
    case command: False
    obtain ierr device where resolved:
      "idevice_new_with_options w (udid vars) (lookup_options vars) = (ierr, device)"
      by (cases "idevice_new_with_options w (udid vars) (lookup_options vars)")
    show ?thesis
    proof (cases "ierr = IDEVICE_E_SUCCESS")
      case False
      with assms Cons command resolved show ?thesis
        by (intro no_device [of a rest ierr device])
           (auto simp: main_run_def EXIT_FAILURE_def lookup_options_def)
    next
      case found: True
      obtain ret lc where handshake:
        "lockdownd_client_new_with_handshake w device TOOL_NAME = (ret, lc)"
        by (cases "lockdownd_client_new_with_handshake w device TOOL_NAME")
      show ?thesis
      proof (cases "ret = LOCKDOWN_E_SUCCESS")
        case False
        with assms Cons command resolved found handshake show ?thesis
          by (intro no_handshake [of a rest ret device lc])
             (auto simp: main_run_def EXIT_FAILURE_def lookup_options_def)
      next
        case paired: True
        obtain ret' service where service:
          "lockdownd_start_service w lc ''com.apple.mobile.assertion_agent'' = (ret', service)"
          by (cases "lockdownd_start_service w lc ''com.apple.mobile.assertion_agent''")
        show ?thesis
        proof (cases "ret' = LOCKDOWN_E_SUCCESS")
          case False
          with assms Cons command resolved found handshake paired service show ?thesis
            by (intro no_service [of a rest ret' device lc service])
               (auto simp: main_run_def EXIT_FAILURE_def lookup_options_def)
        next
          case True
          obtain t4 r4 where power:
            "main_power w device LOCKDOWN_E_SUCCESS service (main_cmd a) vars = (t4, r4)"
            by (cases "main_power w device LOCKDOWN_E_SUCCESS service (main_cmd a) vars")
          show ?thesis
          proof (cases r4)
            case (Inl f)
            with assms Cons command resolved found handshake paired service True power
            show ?thesis
              by (intro faulted [of a rest device service t4 f lc])
                 (auto simp: main_run_def lookup_options_def)
          next
            case (Inr ra)
            obtain status assertion where "ra = (status, assertion)"
              by (cases ra)
            with Inr assms Cons command resolved found handshake paired service True power
            show ?thesis
              by (intro started [of a rest device service t4 status assertion lc])
                 (auto simp: main_run_def lookup_options_def)
          qed
        qed
      qed
    qed
  qed
qed

lemma main_run_exchange:
  assumes "list_ex is_send (fst (main_run w vars argv))"
  shows "\<exists>a rest. argv = a # rest
     \<and> sleeps (fst (main_run w vars argv))
          = [nat (main_hold vars)]
     \<and> sent_documents (fst (main_run w vars argv)) = [Some (main_assertion (main_cmd a) vars)]
     \<and> filter is_exchange_or_sleep (fst (main_run w vars argv))
          = filter is_exchange (fst (main_run w vars argv))
            @ [SLEEP (nat (main_hold vars))]"
proof -
  obtain tr r where run: "main_run w vars argv = (tr, r)"
    by (cases "main_run w vars argv")
  then show ?thesis
  proof (cases rule: main_run_cases)
    case (faulted a rest device lc service t4 f)
    from main_power_fault [OF faulted(3)] faulted(4) assms run show ?thesis
      by simp
  next
    case (started a rest device lc service t4 status assertion)
    from assms run started(5) have "list_ex is_send t4"
      by (simp add: cleanup_events)
    with main_power_facts [OF started(3)] started(1,5) run show ?thesis
      by (simp add: sleeps_append sent_documents_append cleanup_events)
  qed (use assms run in simp_all)
qed

lemma main_run_status:
  assumes "main_run w vars argv = (tr, Inr status)"
  shows "(status = 0) = (list_ex send_succeeded tr \<and> list_ex receive_succeeded tr)
    \<and> (list_ex stage_failed tr \<longrightarrow> status \<noteq> 0)
    \<and> \<not> list_ex is_help_or_version tr"
  using assms
proof (cases rule: main_run_cases)
  case (started a rest device lc service t4 status' assertion)
  with main_power_facts [OF started(3)] show ?thesis
    by (auto simp: cleanup_events)
qed simp_all

lemma main_run_unsupported:
  assumes "a \<noteq> ''sync''" "a \<noteq> ''idle''" "a \<noteq> ''sleep''"
  shows "main_run w vars (a # rest) = ([PRINT_USAGE True], Inr EXIT_FAILURE)"
  using assms by (simp add: main_run_def main_cmd_def)

subsection \<open>The driver: runs on a device\<close>

lemmas run_defs = main_def main_initial_vars_def main_run_def main_power_def main_exchange_def
  main_cmd_def main_hold_def main_cleanup_def lookup_options_def slot_of_def
  power_client_new_def power_send_def power_receive_def power_receive_with_timeout_def
  power_client_free_def atoi_def strtol_def isspace_def isdigit_def
  EXIT_SUCCESS_def EXIT_FAILURE_def TOOL_NAME_def
  ready_world_def timeout_world_def Let_def

lemma getopt_timeout_30:
  "main_getopt [OPT_t ''30''] main_initial_vars
     = ([], Continue \<lparr>udid = None, use_network = False, timeout = 30\<rparr>)"
  by (simp add: main_initial_vars_def atoi_def strtol_def isspace_def isdigit_def)

lemma getopt_timeout_5:
  "main_getopt [OPT_t ''5''] main_initial_vars
     = ([], Continue \<lparr>udid = None, use_network = False, timeout = 5\<rparr>)"
  by (simp add: main_initial_vars_def atoi_def strtol_def isspace_def isdigit_def)

lemma main_assertion_idle:
  "main_assertion CMD_USER_IDLE_SLEEP vars =
     PLIST_DICT
       [(''CommandKey'', PLIST_STRING ''CommandCreateAssertion''),
        (''AssertionTypeKey'', PLIST_STRING ''PreventUserIdleSystemSleep''),
        (''AssertionNameKey'', PLIST_STRING ''idevicepower''),
        (''AssertionTimeoutKey'', PLIST_UINT (word_of_int (timeout vars))),
        (''AssertionDetailKey'', PLIST_STRING ''power update'')]"
  by (simp add: main_assertion_def plist_new_dict_def plist_new_string_def plist_new_uint_def
      TOOL_NAME_def)

text \<open>
  Sub-command \<^verbatim>\<open>idle\<close> with \<^verbatim>\<open>-t 30\<close> on a device that acknowledges: the whole run.
\<close>

lemma scenario_A:
  "main ready_world [OPT_t ''30''] [''idle''] =
     ([IDEVICE_NEW_WITH_OPTIONS None [IDEVICE_LOOKUP_USBMUX] IDEVICE_E_SUCCESS (Some 1),
       LOCKDOWND_CLIENT_NEW_WITH_HANDSHAKE (Some 1) ''idevicepower'' LOCKDOWN_E_SUCCESS (Some 2),
       LOCKDOWND_START_SERVICE (Some 2) ''com.apple.mobile.assertion_agent'' LOCKDOWN_E_SUCCESS
         (Some \<lparr>port = 49152\<rparr>),
       LOCKDOWND_CLIENT_FREE (Some 2),
       PROPERTY_LIST_SERVICE_CLIENT_NEW (Some 1) (Some \<lparr>port = 49152\<rparr>)
         PROPERTY_LIST_SERVICE_E_SUCCESS (Some 3),
       MALLOC True,
       PROPERTY_LIST_SERVICE_SEND_BINARY_PLIST (Some 3)
         (Some (main_assertion CMD_USER_IDLE_SLEEP
            \<lparr>udid = None, use_network = False, timeout = 30\<rparr>))
         PROPERTY_LIST_SERVICE_E_SUCCESS,
       PLIST_FREE (Some (main_assertion CMD_USER_IDLE_SLEEP
            \<lparr>udid = None, use_network = False, timeout = 30\<rparr>)),
       PROPERTY_LIST_SERVICE_RECEIVE_PLIST_WITH_TIMEOUT (Some 3) 1000
         PROPERTY_LIST_SERVICE_E_SUCCESS (Some (PLIST_DICT [])),
       SLEEP 20,
       PROPERTY_LIST_SERVICE_CLIENT_FREE (Some 3) PROPERTY_LIST_SERVICE_E_SUCCESS,
       FREE,
       LOCKDOWND_SERVICE_DESCRIPTOR_FREE (Some \<lparr>port = 49152\<rparr>),
       IDEVICE_FREE (Some 1),
       PLIST_FREE (Some (PLIST_DICT []))],
      Inr 0)"
  by (simp add: run_defs)

text \<open>
  Sub-command \<^verbatim>\<open>sleep\<close> with \<^verbatim>\<open>-t 5\<close> on a device whose answer does not arrive in
  time: the hold and the cleanup take place, the status is 1.
\<close>

lemma scenario_C:
  "main timeout_world [OPT_t ''5''] [''sleep''] =
     ([IDEVICE_NEW_WITH_OPTIONS None [IDEVICE_LOOKUP_USBMUX] IDEVICE_E_SUCCESS (Some 1),
       LOCKDOWND_CLIENT_NEW_WITH_HANDSHAKE (Some 1) ''idevicepower'' LOCKDOWN_E_SUCCESS (Some 2),
       LOCKDOWND_START_SERVICE (Some 2) ''com.apple.mobile.assertion_agent'' LOCKDOWN_E_SUCCESS
         (Some \<lparr>port = 49152\<rparr>),
       LOCKDOWND_CLIENT_FREE (Some 2),
       PROPERTY_LIST_SERVICE_CLIENT_NEW (Some 1) (Some \<lparr>port = 49152\<rparr>)
         PROPERTY_LIST_SERVICE_E_SUCCESS (Some 3),
       MALLOC True,
       PROPERTY_LIST_SERVICE_SEND_BINARY_PLIST (Some 3)
         (Some (main_assertion CMD_SYSTEM_SLEEP
            \<lparr>udid = None, use_network = False, timeout = 5\<rparr>))
         PROPERTY_LIST_SERVICE_E_SUCCESS,
       PLIST_FREE (Some (main_assertion CMD_SYSTEM_SLEEP
            \<lparr>udid = None, use_network = False, timeout = 5\<rparr>)),
       PROPERTY_LIST_SERVICE_RECEIVE_PLIST_WITH_TIMEOUT (Some 3) 1000
         PROPERTY_LIST_SERVICE_E_RECEIVE_TIMEOUT None,
       PLIST_FREE None,
       SLEEP 5,
       PROPERTY_LIST_SERVICE_CLIENT_FREE (Some 3) PROPERTY_LIST_SERVICE_E_SUCCESS,
       FREE,
       LOCKDOWND_SERVICE_DESCRIPTOR_FREE (Some \<lparr>port = 49152\<rparr>),
       IDEVICE_FREE (Some 1)],
      Inr 1)"
  by (simp add: run_defs)

text \<open>An unsupported sub-command ends the run with \<^verbatim>\<open>EXIT_FAILURE\<close>, in every world.\<close>

lemma main_unsupported_command:
  "main w [] [''foo''] = ([PRINT_USAGE True], Inr 1)"
  by (simp add: main_def main_initial_vars_def main_run_def main_cmd_def EXIT_FAILURE_def)

text \<open>
  An option \<^verbatim>\<open>-t\<close> whose number does not fit \<^verbatim>\<open>int\<close> does not stop the run: the driver
  goes on with what \<^verbatim>\<open>atoi\<close> returns.
\<close>

lemma getopt_timeout_beyond_int:
  "main_getopt [OPT_t ''4294967297''] main_initial_vars
     = ([], Continue \<lparr>udid = None, use_network = False, timeout = 1\<rparr>)"
  by (simp add: main_initial_vars_def atoi_def strtol_def isspace_def isdigit_def)

lemma run_timeout_beyond_int:
  "snd (main ready_world [OPT_t ''4294967297''] [''idle'']) = Inr 0
   \<and> sleeps (fst (main ready_world [OPT_t ''4294967297''] [''idle''])) = [1]"
  by (simp add: run_defs)

text \<open>
  A run that does not return stopped at the store through the result of a \<^verbatim>\<open>malloc\<close> that
  failed.
\<close>

lemma main_fault:
  assumes "main w opts argv = (tr, Inl f)"
  shows "f = NULL_DEREFERENCE \<and> \<not> malloc_succeeds w"
proof -
  obtain evs fl where parsed: "main_getopt opts main_initial_vars = (evs, fl)"
    by (cases "main_getopt opts main_initial_vars")
  show ?thesis
  proof (cases fl)
    case (Return s)
    with assms parsed show ?thesis by (simp add: main_def)
  next
    case (Continue vars)
    with parsed assms obtain tr' where "main_run w vars argv = (tr', Inl f)"
      by (auto simp: main_def split: prod.splits)
    then show ?thesis
    proof (cases rule: main_run_cases)
      case (faulted a rest device lc service t4 f')
      with main_power_fault [OF faulted(3)] show ?thesis by simp
    qed simp_all
  qed
qed

text \<open>
  With a device that is found, a handshake and a start of the service that succeed, a
  descriptor with a port, a transport client that is created and a \<^verbatim>\<open>malloc\<close> that
  succeeds, the run reaches the exchange: its trace is that of the four calls, of
  \<^verbatim>\<open>power_client_new\<close>, of the exchange and of the cleanup.
\<close>

lemma main_run_connected:
  assumes command: "main_cmd a \<noteq> CMD_NONE"
    and resolved: "idevice_new_with_options w (udid vars) (lookup_options vars)
      = (IDEVICE_E_SUCCESS, Some d)"
    and handshake: "lockdownd_client_new_with_handshake w (Some d) TOOL_NAME
      = (LOCKDOWN_E_SUCCESS, lc)"
    and started: "lockdownd_start_service w lc ''com.apple.mobile.assertion_agent''
      = (LOCKDOWN_E_SUCCESS, Some svc)"
    and port: "0 < port svc"
    and connected: "property_list_service_client_new w (Some d) (Some svc)
      = (PROPERTY_LIST_SERVICE_E_SUCCESS, plc)"
    and allocated: "malloc_succeeds w"
  shows "\<exists>assertion.
    fst (main_run w vars (a # rest)) =
      [IDEVICE_NEW_WITH_OPTIONS (udid vars) (lookup_options vars) IDEVICE_E_SUCCESS (Some d),
       LOCKDOWND_CLIENT_NEW_WITH_HANDSHAKE (Some d) TOOL_NAME LOCKDOWN_E_SUCCESS lc,
       LOCKDOWND_START_SERVICE lc ''com.apple.mobile.assertion_agent'' LOCKDOWN_E_SUCCESS
         (Some svc),
       LOCKDOWND_CLIENT_FREE lc,
       PROPERTY_LIST_SERVICE_CLIENT_NEW (Some d) (Some svc) PROPERTY_LIST_SERVICE_E_SUCCESS plc,
       MALLOC True]
      @ fst (main_exchange w (Some \<lparr>parent = plc\<rparr>) (main_cmd a) vars)
      @ main_cleanup (Some svc) (Some d) assertion"
proof -
  obtain tr4 r4 where exchange:
    "main_exchange w (Some \<lparr>parent = plc\<rparr>) (main_cmd a) vars = (tr4, r4)"
    by (cases "main_exchange w (Some \<lparr>parent = plc\<rparr>) (main_cmd a) vars")
  from main_exchange_facts [OF exchange] obtain result assertion
    where r4: "r4 = Inr (result, assertion)" by blast
  from port have nonzero: "port svc \<noteq> 0" by auto
  have "main_power w (Some d) LOCKDOWN_E_SUCCESS (Some svc) (main_cmd a) vars =
      ([PROPERTY_LIST_SERVICE_CLIENT_NEW (Some d) (Some svc) PROPERTY_LIST_SERVICE_E_SUCCESS plc,
        MALLOC True] @ tr4, Inr (result, assertion))"
    using port nonzero connected allocated exchange r4
    by (simp add: main_power_def power_client_new_def slot_of_def)
  with command resolved handshake started exchange show ?thesis
    by (intro exI [of _ assertion]) (simp add: main_run_def)
qed

subsection \<open>The driver: the claims\<close>

text \<open>
  C6.  When the options are accepted and leave the timeout \<open>t\<close>, then \<open>t\<close> is positive,
  and in every run that reaches the exchange (one that calls the transport's send), whatever
  send and receive answer, the driver sleeps exactly once: for \<open>t - 10\<close> seconds when \<open>t\<close>
  exceeds 10 and for \<open>t\<close> seconds otherwise; and among the sends, receives and sleeps of
  the run the sleep comes last.
\<close>

theorem hold_after_exchange:
  assumes "main_getopt opts main_initial_vars = (evs, Continue vars)"
    and "list_ex is_send (fst (main w opts argv))"
  shows "0 < timeout vars
     \<and> (10 < timeout vars \<longrightarrow> sleeps (fst (main w opts argv)) = [nat (timeout vars - 10)])
     \<and> (timeout vars \<le> 10 \<longrightarrow> sleeps (fst (main w opts argv)) = [nat (timeout vars)])
     \<and> filter is_exchange_or_sleep (fst (main w opts argv))
         = filter is_exchange (fst (main w opts argv)) @ [SLEEP (nat (main_hold vars))]"
proof -
  from assms(1) have positive: "0 < timeout vars" and quiet: "set evs \<subseteq> {IDEVICE_SET_DEBUG_LEVEL}"
    using main_getopt_Continue main_initial_timeout by blast+
  from assms have "list_ex is_send (fst (main_run w vars argv))"
    by (simp add: main_Continue debug_only_events [OF quiet])
  from main_run_exchange [OF this] positive show ?thesis
    by (auto simp: main_Continue [OF assms(1)] sleeps_append debug_only_events [OF quiet]
          main_hold_def)
qed

theorem hold_after_exchange_witness:
  "list_ex is_send (fst (main ready_world [OPT_t ''30''] [''idle'']))
   \<and> sleeps (fst (main ready_world [OPT_t ''30''] [''idle''])) = [20]
   \<and> list_ex is_send (fst (main timeout_world [OPT_t ''5''] [''sleep'']))
   \<and> sleeps (fst (main timeout_world [OPT_t ''5''] [''sleep''])) = [5]"
  using hold_after_exchange [OF getopt_timeout_30, of ready_world "[''idle'']"]
    hold_after_exchange [OF getopt_timeout_5, of timeout_world "[''sleep'']"]
  by (simp add: scenario_A scenario_C)

text \<open>
  C8.  Invoked with the sub-command \<^verbatim>\<open>idle\<close> and options that leave the timeout 30, on a
  device that is found, with a handshake and a start of the service that succeed, a
  descriptor with a port, a transport client that is created and a \<^verbatim>\<open>malloc\<close> that
  succeeds, the driver hands exactly one document to the transport's send, whatever the
  send and the receive answer: the dictionary of the five entries \<^verbatim>\<open>CommandKey\<close> =
  \<^verbatim>\<open>CommandCreateAssertion\<close>, \<^verbatim>\<open>AssertionTypeKey\<close> = \<^verbatim>\<open>PreventUserIdleSystemSleep\<close>,
  \<^verbatim>\<open>AssertionNameKey\<close> = \<^verbatim>\<open>idevicepower\<close>, \<^verbatim>\<open>AssertionTimeoutKey\<close> = 30 and
  \<^verbatim>\<open>AssertionDetailKey\<close> = \<^verbatim>\<open>power update\<close>, in this order.
\<close>

theorem idle_request:
  assumes "main_getopt opts main_initial_vars = (evs, Continue vars)"
    and "timeout vars = 30"
    and "idevice_new_with_options w (udid vars) (lookup_options vars)
      = (IDEVICE_E_SUCCESS, Some d)"
    and "lockdownd_client_new_with_handshake w (Some d) TOOL_NAME = (LOCKDOWN_E_SUCCESS, lc)"
    and "lockdownd_start_service w lc ''com.apple.mobile.assertion_agent''
      = (LOCKDOWN_E_SUCCESS, Some svc)"
    and "0 < port svc"
    and "property_list_service_client_new w (Some d) (Some svc)
      = (PROPERTY_LIST_SERVICE_E_SUCCESS, plc)"
    and "malloc_succeeds w"
  shows "sent_documents (fst (main w opts (''idle'' # rest))) =
     [Some (PLIST_DICT
       [(''CommandKey'', PLIST_STRING ''CommandCreateAssertion''),
        (''AssertionTypeKey'', PLIST_STRING ''PreventUserIdleSystemSleep''),
        (''AssertionNameKey'', PLIST_STRING ''idevicepower''),
        (''AssertionTimeoutKey'', PLIST_UINT 30),
        (''AssertionDetailKey'', PLIST_STRING ''power update'')])]"
proof -
  from assms(1) have quiet: "set evs \<subseteq> {IDEVICE_SET_DEBUG_LEVEL}"
    using main_getopt_Continue main_initial_timeout by blast
  have command: "main_cmd ''idle'' = CMD_USER_IDLE_SLEEP"
    by (simp add: main_cmd_def)
  then have "main_cmd ''idle'' \<noteq> CMD_NONE" by simp
  from main_run_connected [OF this assms(3-8), of rest] obtain assertion where
    "fst (main_run w vars (''idle'' # rest)) =
      [IDEVICE_NEW_WITH_OPTIONS (udid vars) (lookup_options vars) IDEVICE_E_SUCCESS (Some d),
       LOCKDOWND_CLIENT_NEW_WITH_HANDSHAKE (Some d) TOOL_NAME LOCKDOWN_E_SUCCESS lc,
       LOCKDOWND_START_SERVICE lc ''com.apple.mobile.assertion_agent'' LOCKDOWN_E_SUCCESS
         (Some svc),
       LOCKDOWND_CLIENT_FREE lc,
       PROPERTY_LIST_SERVICE_CLIENT_NEW (Some d) (Some svc) PROPERTY_LIST_SERVICE_E_SUCCESS plc,
       MALLOC True]
      @ fst (main_exchange w (Some \<lparr>parent = plc\<rparr>) CMD_USER_IDLE_SLEEP vars)
      @ main_cleanup (Some svc) (Some d) assertion"
    unfolding command by blast
  moreover have "sent_documents (fst (main_exchange w (Some \<lparr>parent = plc\<rparr>)
      CMD_USER_IDLE_SLEEP vars)) = [Some (main_assertion CMD_USER_IDLE_SLEEP vars)]"
    using main_exchange_facts
      [of w "\<lparr>parent = plc\<rparr>" CMD_USER_IDLE_SLEEP vars
        "fst (main_exchange w (Some \<lparr>parent = plc\<rparr>) CMD_USER_IDLE_SLEEP vars)"
        "snd (main_exchange w (Some \<lparr>parent = plc\<rparr>) CMD_USER_IDLE_SLEEP vars)"]
    by auto
  ultimately show ?thesis
    using assms(2)
    by (simp add: main_Continue [OF assms(1)] sent_documents_append
          debug_only_events [OF quiet] cleanup_events main_assertion_idle)
qed

theorem idle_request_witness:
  "main_getopt [OPT_n, OPT_t ''30''] main_initial_vars
     = ([], Continue \<lparr>udid = None, use_network = True, timeout = 30\<rparr>)
   \<and> idevice_new_with_options ready_world None [IDEVICE_LOOKUP_USBMUX, IDEVICE_LOOKUP_NETWORK]
     = (IDEVICE_E_SUCCESS, Some 1)
   \<and> lockdownd_client_new_with_handshake ready_world (Some 1) TOOL_NAME
     = (LOCKDOWN_E_SUCCESS, Some 2)
   \<and> lockdownd_start_service ready_world (Some 2) ''com.apple.mobile.assertion_agent''
     = (LOCKDOWN_E_SUCCESS, Some \<lparr>port = 49152\<rparr>)
   \<and> (0 :: 16 word) < 49152
   \<and> property_list_service_client_new ready_world (Some 1) (Some \<lparr>port = 49152\<rparr>)
     = (PROPERTY_LIST_SERVICE_E_SUCCESS, Some 3)
   \<and> malloc_succeeds ready_world
   \<and> sent_documents (fst (main ready_world [OPT_n, OPT_t ''30''] [''idle''])) =
     [Some (PLIST_DICT
       [(''CommandKey'', PLIST_STRING ''CommandCreateAssertion''),
        (''AssertionTypeKey'', PLIST_STRING ''PreventUserIdleSystemSleep''),
        (''AssertionNameKey'', PLIST_STRING ''idevicepower''),
        (''AssertionTimeoutKey'', PLIST_UINT 30),
        (''AssertionDetailKey'', PLIST_STRING ''power update'')])]"
proof -
  have parsed: "main_getopt [OPT_n, OPT_t ''30''] main_initial_vars
     = ([], Continue \<lparr>udid = None, use_network = True, timeout = 30\<rparr>)"
    by (simp add: main_initial_vars_def atoi_def strtol_def isspace_def isdigit_def)
  have ready:
    "idevice_new_with_options ready_world None [IDEVICE_LOOKUP_USBMUX, IDEVICE_LOOKUP_NETWORK]
       = (IDEVICE_E_SUCCESS, Some 1)"
    "lockdownd_client_new_with_handshake ready_world (Some 1) TOOL_NAME
       = (LOCKDOWN_E_SUCCESS, Some 2)"
    "lockdownd_start_service ready_world (Some 2) ''com.apple.mobile.assertion_agent''
       = (LOCKDOWN_E_SUCCESS, Some \<lparr>port = 49152\<rparr>)"
    "(0 :: 16 word) < 49152"
    "property_list_service_client_new ready_world (Some 1) (Some \<lparr>port = 49152\<rparr>)
       = (PROPERTY_LIST_SERVICE_E_SUCCESS, Some 3)"
    "malloc_succeeds ready_world"
    by (simp_all add: ready_world_def)
  show ?thesis
    using idle_request [OF parsed, of ready_world 1 "Some 2" "\<lparr>port = 49152\<rparr>" "Some 3" "[]"]
      parsed ready
    by (simp add: lookup_options_def)
qed

text \<open>
  C7, as stated, fails: with the help option the status is 0 although nothing was sent or
  received, and the unsupported sub-command \<^verbatim>\<open>foo\<close> ends with status 1.
\<close>

theorem exit_status_counterexample:
  "main ready_world [OPT_h] [''idle''] = ([PRINT_USAGE False], Inr 0)
   \<and> \<not> list_ex send_succeeded (fst (main ready_world [OPT_h] [''idle'']))
   \<and> \<not> list_ex receive_succeeded (fst (main ready_world [OPT_h] [''idle'']))
   \<and> main ready_world [] [''foo''] = ([PRINT_USAGE True], Inr 1)"
  by (simp add: main_def main_initial_vars_def main_run_def main_cmd_def EXIT_FAILURE_def)

text \<open>
  C7, amended.  For every run that returns: the status is 0 exactly when the run stopped at
  the help or version option, or both \<^verbatim>\<open>power_send\<close> and \<^verbatim>\<open>power_receive\<close> succeeded;
  it is not 0 when device resolution, the handshake, the start of the service, the
  connection of the client, the send or the receive failed; and with a sub-command other
  than \<^verbatim>\<open>sync\<close>, \<^verbatim>\<open>idle\<close> and \<^verbatim>\<open>sleep\<close> neither device resolution nor the transport
  is called.
\<close>

theorem exit_status:
  assumes "main w opts argv = (tr, Inr status)"
  shows "(status = 0) =
           (list_ex is_help_or_version tr
            \<or> (list_ex send_succeeded tr \<and> list_ex receive_succeeded tr))
     \<and> (list_ex stage_failed tr \<longrightarrow> status \<noteq> 0)
     \<and> (\<forall>a rest. argv = a # rest \<and> a \<noteq> ''sync'' \<and> a \<noteq> ''idle'' \<and> a \<noteq> ''sleep'' \<longrightarrow>
           \<not> list_ex is_device_resolution tr \<and> \<not> list_ex is_transport tr)"
proof -
  obtain evs fl where parsed: "main_getopt opts main_initial_vars = (evs, fl)"
    by (cases "main_getopt opts main_initial_vars")
  show ?thesis
  proof (cases fl)
    case (Return s)
    with assms parsed have "tr = evs" "status = s" by (simp_all add: main_def)
    with main_getopt_Return [of opts main_initial_vars evs s] parsed Return show ?thesis
      by (simp add: getopt_events getopt_events_transport)
  next
    case (Continue vars)
    with parsed have quiet: "set evs \<subseteq> {IDEVICE_SET_DEBUG_LEVEL}"
      using main_getopt_Continue main_initial_timeout by blast
    from Continue parsed assms obtain tr' where tr: "tr = evs @ tr'"
      and run: "main_run w vars argv = (tr', Inr status)"
      by (auto simp: main_def split: prod.splits)
    have "\<not> list_ex is_device_resolution tr' \<and> \<not> list_ex is_transport tr'"
      if "argv = a # rest" "a \<noteq> ''sync''" "a \<noteq> ''idle''" "a \<noteq> ''sleep''" for a rest
      using run that main_run_unsupported [of a w vars rest] by auto
    with main_run_status [OF run] tr show ?thesis
      by (auto simp: debug_only_events [OF quiet] debug_only_transport [OF quiet])
  qed
qed

theorem exit_status_witness:
  "main ready_world [OPT_t ''30''] [''idle'']
     = (fst (main ready_world [OPT_t ''30''] [''idle'']), Inr 0)
   \<and> list_ex send_succeeded (fst (main ready_world [OPT_t ''30''] [''idle'']))
   \<and> list_ex receive_succeeded (fst (main ready_world [OPT_t ''30''] [''idle'']))
   \<and> main timeout_world [OPT_t ''5''] [''sleep'']
     = (fst (main timeout_world [OPT_t ''5''] [''sleep'']), Inr 1)
   \<and> list_ex stage_failed (fst (main timeout_world [OPT_t ''5''] [''sleep'']))
   \<and> main ready_world [] [''foo''] = ([PRINT_USAGE True], Inr 1)
   \<and> \<not> list_ex is_device_resolution [PRINT_USAGE True]
   \<and> \<not> list_ex is_transport [PRINT_USAGE True]"
  using exit_status [of ready_world "[OPT_t ''30'']" "[''idle'']"
      "fst (main ready_world [OPT_t ''30''] [''idle''])" 0]
    exit_status [of timeout_world "[OPT_t ''5'']" "[''sleep'']"
      "fst (main timeout_world [OPT_t ''5''] [''sleep''])" 1]
    exit_status [of ready_world "[]" "[''foo'']" "[PRINT_USAGE True]" 1]
  by (simp add: scenario_A scenario_C main_unsupported_command)

end
